theory Spec2Isabelle
  imports Main "HOL-Library.Sublist"
begin

section \<open>Auto Form Fill: the orchestrator of \<^verbatim>\<open>main.py\<close>\<close>

text \<open>
  A shallow embedding of \<^verbatim>\<open>src/main.py\<close>: the Config Loader (\<^verbatim>\<open>load_json_file\<close>), the
  Template Validator (\<^verbatim>\<open>validate_template\<close>), the Data Merger (\<^verbatim>\<open>merge_data\<close>) and the
  six stages of \<^verbatim>\<open>main\<close>. Exceptions are values of a sum type (\<open>Inl\<close> the exception);
  whatever the program prints or calls is recorded, in order, in a list of events.
\<close>

subsection \<open>Values\<close>

text \<open>
  The values that flow through the orchestrator are what \<^verbatim>\<open>json.load\<close> produces. A Python
  \<^verbatim>\<open>dict\<close> is the list of its items in insertion order; a well-formed dict has distinct
  keys. A float is kept as the text of its literal: no function of the program computes
  with one.
\<close>

datatype json =
    JNull
  | JBool bool
  | JInt int
  | JFloat string
  | JStr string
  | JList "json list"
  | JDict "(string \<times> json) list"

text \<open>
  The exception classes the program names or can meet. \<open>JSONDecodeError\<close> is the class of
  \<^verbatim>\<open>json.JSONDecodeError\<close>; \<open>OtherException\<close> stands for any further subclass of
  \<^verbatim>\<open>Exception\<close>, with its class name.
\<close>

datatype exn_class =
    FileNotFoundError
  | JSONDecodeError
  | ValueError
  | TypeError
  | AttributeError
  | OtherException string

text \<open>
  An f-string is kept unrendered: its literal text, with \<^verbatim>\<open>{}\<close> for each replacement field,
  and the list of the values interpolated there. An exception of a subclass of
  \<^verbatim>\<open>Exception\<close> is \<open>Exn\<close> with its class and its message. \<^verbatim>\<open>SystemExit\<close> (raised by
  \<^verbatim>\<open>sys.exit\<close>) and \<^verbatim>\<open>KeyboardInterrupt\<close> derive from \<^verbatim>\<open>BaseException\<close> only, so that
  \<^verbatim>\<open>except Exception\<close> lets them pass.
\<close>

datatype fvalue =
    VStr string
  | VNat nat
  | VJson json
  | VExn exn
and exn =
    Exn exn_class string "fvalue list"
  | SystemExit int
  | KeyboardInterrupt

fun is_Exception :: "exn \<Rightarrow> bool" where
  "is_Exception (Exn c m vs) = True"
| "is_Exception (SystemExit n) = False"
| "is_Exception KeyboardInterrupt = False"

fun is_class :: "exn_class \<Rightarrow> exn \<Rightarrow> bool" where
  "is_class c (Exn c' m vs) = (c' = c)"
| "is_class c (SystemExit n) = False"
| "is_class c KeyboardInterrupt = False"

subsection \<open>The operations of Python the program applies to these values\<close>

fun type_name :: "json \<Rightarrow> string" where
  "type_name JNull = ''NoneType''"
| "type_name (JBool b) = ''bool''"
| "type_name (JInt n) = ''int''"
| "type_name (JFloat x) = ''float''"
| "type_name (JStr s) = ''str''"
| "type_name (JList xs) = ''list''"
| "type_name (JDict d) = ''dict''"

text \<open>\<^verbatim>\<open>k in d\<close> for a dict \<open>d\<close>.\<close>

definition has_key :: "(string \<times> 'v) list \<Rightarrow> string \<Rightarrow> bool" where
  "has_key d k = (k \<in> set (map fst d))"

text \<open>\<^verbatim>\<open>sub in s\<close> for two strings: \<open>sub\<close> occurs in \<open>s\<close> as a contiguous substring.\<close>

fun str_contains :: "string \<Rightarrow> string \<Rightarrow> bool" where
  "str_contains [] sub = (sub = [])"
| "str_contains (c # cs) sub = (prefix sub (c # cs) \<or> str_contains cs sub)"

text \<open>
  \<^verbatim>\<open>k in v\<close> for a string \<open>k\<close>: key membership in a dict, element membership in a list,
  substring test in a string, and a \<^verbatim>\<open>TypeError\<close> for the values that are no containers.
\<close>

fun py_contains :: "json \<Rightarrow> string \<Rightarrow> exn + bool" where
  "py_contains (JDict d) k = Inr (has_key d k)"
| "py_contains (JList xs) k = Inr (JStr k \<in> set xs)"
| "py_contains (JStr s) k = Inr (str_contains s k)"
| "py_contains v k = Inl (Exn TypeError ''argument of type '{}' is not iterable'' [VStr (type_name v)])"

text \<open>\<^verbatim>\<open>v[k]\<close> for a string \<open>k\<close>.\<close>

fun py_getitem :: "json \<Rightarrow> string \<Rightarrow> exn + json" where
  "py_getitem (JDict d) k =
     (case map_of d k of
        Some x \<Rightarrow> Inr x
      | None \<Rightarrow> Inl (Exn (OtherException ''KeyError'') ''{}'' [VJson (JStr k)]))"
| "py_getitem (JList xs) k =
     Inl (Exn TypeError ''list indices must be integers or slices, not str'' [])"
| "py_getitem (JStr s) k =
     Inl (Exn TypeError (''string indices must be integers, not 'str'' @ [CHR 0x27]) [])"
| "py_getitem v k =
     Inl (Exn TypeError (CHR 0x27 # ''{}' object is not subscriptable'') [VStr (type_name v)])"

text \<open>\<^verbatim>\<open>len(v)\<close>.\<close>

fun py_len :: "json \<Rightarrow> exn + nat" where
  "py_len (JDict d) = Inr (length d)"
| "py_len (JList xs) = Inr (length xs)"
| "py_len (JStr s) = Inr (length s)"
| "py_len v = Inl (Exn TypeError ''object of type '{}' has no len()'' [VStr (type_name v)])"

text \<open>\<^verbatim>\<open>v.items()\<close>.\<close>

fun py_items :: "json \<Rightarrow> exn + (string \<times> json) list" where
  "py_items (JDict d) = Inr d"
| "py_items v =
     Inl (Exn AttributeError (CHR 0x27 # ''{}' object has no attribute 'items'' @ [CHR 0x27])
       [VStr (type_name v)])"

subsection \<open>Template Validator\<close>

text \<open>
  The loop \<^verbatim>\<open>for i, field in enumerate(template['fields'])\<close> of \<^verbatim>\<open>validate_template\<close>:
  the index of the field at the head of the list, and the fields still to check.
\<close>

fun validate_fields :: "nat \<Rightarrow> json list \<Rightarrow> exn + unit" where
  "validate_fields i [] = Inr ()"
| "validate_fields i (field # fields) =
     (case field of
        JDict d \<Rightarrow>
          if \<not> has_key d ''name'' then
            Inl (Exn ValueError ''Field {} missing 'name' key'' [VNat i])
          else if \<not> has_key d ''pixel_bbox'' then
            Inl (Exn ValueError ''Field {} missing 'pixel_bbox' key'' [VNat i])
          else validate_fields (Suc i) fields
      | _ \<Rightarrow> Inl (Exn ValueError ''Field {} must be a dictionary'' [VNat i]))"

definition validate_template :: "json \<Rightarrow> exn + unit" where
  "validate_template template =
     (case py_contains template ''fields'' of
        Inl e \<Rightarrow> Inl e
      | Inr False \<Rightarrow> Inl (Exn ValueError ''Template missing 'fields' key'' [])
      | Inr True \<Rightarrow>
          (case py_getitem template ''fields'' of
             Inl e \<Rightarrow> Inl e
           | Inr (JList fields) \<Rightarrow> validate_fields 0 fields
           | Inr _ \<Rightarrow> Inl (Exn ValueError ''Template 'fields' must be a list'' [])))"

subsection \<open>Data Merger\<close>

text \<open>\<^verbatim>\<open>d[k] = v\<close>: the value of an existing key is replaced in place, a new key goes last.\<close>

fun dict_setitem :: "string \<Rightarrow> 'v \<Rightarrow> (string \<times> 'v) list \<Rightarrow> (string \<times> 'v) list" where
  "dict_setitem k v [] = [(k, v)]"
| "dict_setitem k v ((k', v') # d) =
     (if k' = k then (k, v) # d else (k', v') # dict_setitem k v d)"

text \<open>\<^verbatim>\<open>d.update(other)\<close>: the items of \<open>other\<close> are set in \<open>d\<close>, in their order.\<close>

definition dict_update :: "(string \<times> 'v) list \<Rightarrow> (string \<times> 'v) list \<Rightarrow> (string \<times> 'v) list" where
  "dict_update d other = fold (\<lambda>(k, v) m. dict_setitem k v m) other d"

text \<open>
  The truth value of an optional dict (\<^verbatim>\<open>if override_data:\<close>): false for \<^verbatim>\<open>None\<close> and
  for the empty dict.
\<close>

fun truthy :: "(string \<times> 'v) list option \<Rightarrow> bool" where
  "truthy None = False"
| "truthy (Some d) = (d \<noteq> [])"

text \<open>
  \<^verbatim>\<open>merge_data\<close> on values: the items of the dict it returns. The copy of
  \<^verbatim>\<open>extracted_data\<close> has the same items in the same order.
\<close>

definition merge_data ::
  "(string \<times> 'v) list \<Rightarrow> (string \<times> 'v) list option \<Rightarrow> (string \<times> 'v) list" where
  "merge_data extracted_data override_data =
     (let merged = extracted_data in
      case override_data of
        None \<Rightarrow> merged
      | Some d \<Rightarrow> if truthy (Some d) then dict_update merged d else merged)"

text \<open>
  \<^verbatim>\<open>merge_data\<close> on objects. Python passes references: a store holds the items of every
  dict object at its address, and the addresses below \<open>next_free\<close> are the objects that
  exist. \<^verbatim>\<open>extracted_data.copy()\<close> makes a new object; \<^verbatim>\<open>merged.update\<close> changes that
  object in place.
\<close>

record 'v store =
  cells :: "nat \<Rightarrow> (string \<times> 'v) list"
  next_free :: nat

definition dict_copy :: "'v store \<Rightarrow> nat \<Rightarrow> nat \<times> 'v store" where
  "dict_copy s a =
     (next_free s,
      s\<lparr>cells := (cells s)(next_free s := cells s a), next_free := Suc (next_free s)\<rparr>)"

definition dict_update_in_place :: "'v store \<Rightarrow> nat \<Rightarrow> nat \<Rightarrow> 'v store" where
  "dict_update_in_place s a other =
     s\<lparr>cells := (cells s)(a := dict_update (cells s a) (cells s other))\<rparr>"

definition merge_data_store :: "'v store \<Rightarrow> nat \<Rightarrow> nat option \<Rightarrow> nat \<times> 'v store" where
  "merge_data_store s extracted_data override_data =
     (let (merged, s1) = dict_copy s extracted_data in
      case override_data of
        None \<Rightarrow> (merged, s1)
      | Some other \<Rightarrow>
          if truthy (Some (cells s1 other)) then (merged, dict_update_in_place s1 merged other)
          else (merged, s1))"

subsection \<open>Effects: what a run prints and calls\<close>

text \<open>
  An event is one \<^verbatim>\<open>print\<close> (the f-string unrendered; the pictographs that open the
  messages are not ASCII and are left out) or one call that leaves the module, with its
  arguments. \<open>'f\<close> is the type of what \<^verbatim>\<open>fill_form\<close> returns.
\<close>

datatype 'f event =
    Print string "fvalue list"
  | Call_exists string
  | Call_open string
  | Call_json_load string
  | Call_match_template string
  | Call_extract_data_from_image string json
  | Call_fill_form string json "(string \<times> json) list"
  | Call_mkdir_parent string
  | Call_save_filled_form 'f string

text \<open>
  What the module imports and calls: the file system, the JSON parser, the four
  collaborators (\<^verbatim>\<open>calibrator\<close>, \<^verbatim>\<open>ocr.extractor\<close>, \<^verbatim>\<open>filler\<close>, \<^verbatim>\<open>printer\<close>) and
  \<^verbatim>\<open>pathlib\<close>. Each is a function of its arguments that returns a value or raises an
  exception. \<open>match_template\<close> is \<open>None\<close> when the imported object is not callable
  (\<^verbatim>\<open>hasattr(match_template, '__call__')\<close>). \<open>open_file\<close> gives the content of the file;
  \<open>path_str p\<close> is \<^verbatim>\<open>str(Path(p))\<close>; \<open>mkdir_parent p\<close> is
  \<^verbatim>\<open>Path(p).parent.mkdir(parents=True, exist_ok=True)\<close>.
\<close>

record 'f world =
  path_exists :: "string \<Rightarrow> bool"
  open_file :: "string \<Rightarrow> exn + string"
  json_load :: "string \<Rightarrow> exn + json"
  match_template :: "(string \<Rightarrow> exn + json) option"
  extract_data_from_image :: "string \<Rightarrow> json \<Rightarrow> exn + (string \<times> string) list"
  fill_form :: "string \<Rightarrow> json \<Rightarrow> (string \<times> json) list \<Rightarrow> exn + 'f"
  path_str :: "string \<Rightarrow> string"
  mkdir_parent :: "string \<Rightarrow> exn + unit"
  save_filled_form :: "'f \<Rightarrow> string \<Rightarrow> exn + unit"

text \<open>The namespace that \<^verbatim>\<open>parser.parse_args()\<close> returns.\<close>

record args =
  arg_image :: string
  arg_template :: string
  arg_output :: string
  arg_data :: "string option"
  arg_debug :: bool

text \<open>
  A computation gives the events it caused and its outcome: the exception it raised or
  the value it returned.
\<close>

type_synonym ('f, 'a) run = "'f event list \<times> (exn + 'a)"

definition do_return :: "'a \<Rightarrow> ('f, 'a) run" where
  "do_return a = ([], Inr a)"

definition do_raise :: "exn \<Rightarrow> ('f, 'a) run" where
  "do_raise e = ([], Inl e)"

definition do_lift :: "exn + 'a \<Rightarrow> ('f, 'a) run" where
  "do_lift r = ([], r)"

definition do_print :: "string \<Rightarrow> fvalue list \<Rightarrow> ('f, unit) run" where
  "do_print s vs = ([Print s vs], Inr ())"

definition do_call :: "'f event \<Rightarrow> exn + 'a \<Rightarrow> ('f, 'a) run" where
  "do_call ev r = ([ev], r)"

definition sys_exit :: "int \<Rightarrow> ('f, 'a) run" where
  "sys_exit n = do_raise (SystemExit n)"

text \<open>Sequencing: an exception ends the computation and keeps the events so far.\<close>

definition then_bind :: "('f, 'a) run \<Rightarrow> ('a \<Rightarrow> ('f, 'b) run) \<Rightarrow> ('f, 'b) run" where
  "then_bind m f =
     (case m of
        (t, Inl e) \<Rightarrow> (t, Inl e)
      | (t, Inr a) \<Rightarrow> (case f a of (t', r) \<Rightarrow> (t @ t', r)))"

definition then_do :: "('f, 'a) run \<Rightarrow> ('f, 'b) run \<Rightarrow> ('f, 'b) run" where
  "then_do m n = then_bind m (\<lambda>_. n)"

text \<open>\<^verbatim>\<open>try: m  except Exception as e: h e\<close>.\<close>

definition try_except :: "('f, 'a) run \<Rightarrow> (exn \<Rightarrow> ('f, 'a) run) \<Rightarrow> ('f, 'a) run" where
  "try_except m h =
     (case m of
        (t, Inl e) \<Rightarrow>
          if is_Exception e then (case h e of (t', r) \<Rightarrow> (t @ t', r)) else (t, Inl e)
      | (t, Inr a) \<Rightarrow> (t, Inr a))"

text \<open>A \<^verbatim>\<open>for\<close> loop whose body is one \<^verbatim>\<open>print\<close>.\<close>

definition print_each :: "('a \<Rightarrow> 'f event) \<Rightarrow> 'a list \<Rightarrow> ('f, unit) run" where
  "print_each line xs = (map line xs, Inr ())"

subsection \<open>Config Loader\<close>

text \<open>
  The two \<^verbatim>\<open>except\<close> clauses of \<^verbatim>\<open>load_json_file\<close> guard both \<^verbatim>\<open>open\<close> and
  \<^verbatim>\<open>json.load\<close>; an exception of any other class passes through unchanged.
\<close>

definition load_json_file :: "'f world \<Rightarrow> string \<Rightarrow> ('f, json) run" where
  "load_json_file w file_path =
     (case then_bind (do_call (Call_open file_path) (open_file w file_path))
             (\<lambda>f. do_call (Call_json_load file_path) (json_load w f)) of
        (t, Inr v) \<Rightarrow> (t, Inr v)
      | (t, Inl e) \<Rightarrow>
          if is_class FileNotFoundError e then
            (t, Inl (Exn FileNotFoundError ''JSON file not found: {}'' [VStr file_path]))
          else if is_class JSONDecodeError e then
            (t, Inl (Exn ValueError ''Invalid JSON in {}: {}'' [VStr file_path, VExn e]))
          else (t, Inl e))"

text \<open>
  Every call of \<^verbatim>\<open>load_json_file\<close> starts with one \<^verbatim>\<open>open\<close>, and nothing else opens a
  file: the number of \<open>Call_open\<close> events is the number of calls of the Config Loader.
\<close>

fun is_open :: "'f event \<Rightarrow> bool" where
  "is_open (Call_open p) = True"
| "is_open ev = False"

definition loader_calls :: "'f event list \<Rightarrow> nat" where
  "loader_calls t = length (filter is_open t)"

subsection \<open>Pipeline Orchestrator\<close>

text \<open>
  \<^verbatim>\<open>main\<close> is given stage by stage, in the order of its \<^verbatim>\<open># Step\<close> comments. Parsing the
  command line is \<^verbatim>\<open>argparse\<close>'s work: the stages start from the parsed arguments.
\<close>

text \<open>The path behind \<^verbatim>\<open>if args.data\<close>: an absent or empty \<^verbatim>\<open>--data\<close> is false.\<close>

definition data_path :: "args \<Rightarrow> string option" where
  "data_path a =
     (case arg_data a of
        None \<Rightarrow> None
      | Some p \<Rightarrow> if p \<noteq> [] then Some p else None)"

definition exists_call :: "'f world \<Rightarrow> string \<Rightarrow> ('f, bool) run" where
  "exists_call w p = do_call (Call_exists p) (Inr (path_exists w p))"

definition validate_input_files :: "'f world \<Rightarrow> args \<Rightarrow> ('f, unit) run" where
  "validate_input_files w a =
     then_do (do_print ''Step 1: Validating input files...'' [])
    (then_bind (exists_call w (arg_image a)) (\<lambda>image_found.
       if \<not> image_found then
         then_do (do_print ''ERROR: Image file not found: {}'' [VStr (arg_image a)]) (sys_exit 1)
       else
         then_bind (exists_call w (arg_template a)) (\<lambda>template_found.
           if \<not> template_found then
             then_do (do_print ''ERROR: Template file not found: {}'' [VStr (arg_template a)])
               (sys_exit 1)
           else
             then_do
               (case data_path a of
                  None \<Rightarrow> do_return ()
                | Some p \<Rightarrow>
                    then_bind (exists_call w p) (\<lambda>data_found.
                      if \<not> data_found then
                        then_do (do_print ''ERROR: Data file not found: {}'' [VStr p]) (sys_exit 1)
                      else do_return ()))
               (do_print ''Input files validated'' []))))"

text \<open>
  Step 2, the Template Resolver: automatic matching first, the explicit path when the
  matcher raises or is not callable, then validation. The outer \<^verbatim>\<open>try\<close> turns every
  exception of the block into the report of a template failure and \<^verbatim>\<open>sys.exit(1)\<close>.
\<close>

definition load_template :: "'f world \<Rightarrow> args \<Rightarrow> ('f, json) run" where
  "load_template w a =
     then_do (do_print ''Step 2: Loading template...'' [])
    (try_except
      (then_bind
        (case match_template w of
           Some matcher \<Rightarrow>
             then_do (do_print ''Attempting automatic template matching...'' [])
            (try_except
              (then_bind
                (do_call (Call_match_template (arg_image a)) (matcher (arg_image a)))
                (\<lambda>template.
                   then_do (do_print ''Template matched automatically'' []) (do_return template)))
              (\<lambda>e.
                 then_do (do_print ''Automatic matching failed: {}'' [VExn e])
                (then_do (do_print ''Loading template from specified path...'' [])
                  (load_json_file w (arg_template a)))))
         | None \<Rightarrow>
             then_do (do_print ''Loading template from specified path...'' [])
               (load_json_file w (arg_template a)))
        (\<lambda>template.
           then_do (do_lift (validate_template template))
          (then_bind (do_lift (py_getitem template ''fields'')) (\<lambda>fields.
           then_bind (do_lift (py_len fields)) (\<lambda>n.
           then_do (do_print ''Template loaded successfully with {} fields'' [VNat n])
             (do_return template))))))
      (\<lambda>e.
         then_do (do_print ''ERROR: Failed to load template: {}'' [VExn e]) (sys_exit 1)))"

text \<open>The line printed for one item of a dict: \<^verbatim>\<open>"   {key}: '{value}'"\<close>.\<close>

definition item_line :: string where
  "item_line = ''   {}: '{}'' @ [CHR 0x27]"

definition display_value :: "string \<Rightarrow> string" where
  "display_value v = (if length v > 50 then take 50 v @ ''...'' else v)"

definition extract_data :: "'f world \<Rightarrow> args \<Rightarrow> json \<Rightarrow> ('f, (string \<times> string) list) run" where
  "extract_data w a template =
     then_do (do_print ''Step 3: Extracting data from image...'' [])
    (try_except
      (then_bind
        (do_call (Call_extract_data_from_image (arg_image a) template)
           (extract_data_from_image w (arg_image a) template))
        (\<lambda>extracted_data.
           then_do
             (do_print ''Data extraction completed. Found {} fields:''
                [VNat (length extracted_data)])
          (then_do
             (print_each
                (\<lambda>(field_name, v). Print item_line [VStr field_name, VStr (display_value v)])
                extracted_data)
             (do_return extracted_data))))
      (\<lambda>e.
         then_do (do_print ''ERROR: Data extraction failed: {}'' [VExn e]) (sys_exit 1)))"

text \<open>
  Step 4 up to the merge. \<^verbatim>\<open>override_data\<close> stays \<^verbatim>\<open>None\<close> without \<^verbatim>\<open>--data\<close>; with it,
  the loaded value has passed \<^verbatim>\<open>len\<close> and \<^verbatim>\<open>.items()\<close> when the \<^verbatim>\<open>try\<close> ends, so it is a
  dict, given by its items.
\<close>

definition load_overrides :: "'f world \<Rightarrow> args \<Rightarrow> ('f, (string \<times> json) list option) run" where
  "load_overrides w a =
     then_do (do_print ''Step 4: Processing data overrides...'' [])
      (case data_path a of
         Some p \<Rightarrow>
           try_except
             (then_bind (load_json_file w p) (\<lambda>override_data.
              then_bind (do_lift (py_len override_data)) (\<lambda>n.
              then_do (do_print ''Loaded {} override values'' [VNat n])
             (then_bind (do_lift (py_items override_data)) (\<lambda>items.
              then_do
                (print_each (\<lambda>(key, v). Print item_line [VStr key, VJson v]) items)
                (do_return (Some items)))))))
             (\<lambda>e.
                then_do (do_print ''ERROR: Failed to load override data: {}'' [VExn e])
                  (sys_exit 1))
       | None \<Rightarrow> then_do (do_print ''No override data provided'' []) (do_return None))"

definition fill :: "'f world \<Rightarrow> args \<Rightarrow> json \<Rightarrow> (string \<times> json) list \<Rightarrow> ('f, 'f) run" where
  "fill w a template final_data =
     then_do (do_print ''Step 5: Filling form...'' [])
    (try_except
      (then_bind
        (do_call (Call_fill_form (arg_image a) template final_data)
           (fill_form w (arg_image a) template final_data))
        (\<lambda>filled_image.
           then_do (do_print ''Form filled successfully'' []) (do_return filled_image)))
      (\<lambda>e. then_do (do_print ''ERROR: Form filling failed: {}'' [VExn e]) (sys_exit 1)))"

definition save_output :: "'f world \<Rightarrow> args \<Rightarrow> 'f \<Rightarrow> ('f, unit) run" where
  "save_output w a filled_image =
     then_do (do_print ''Step 6: Saving filled form...'' [])
    (try_except
      (then_do (do_call (Call_mkdir_parent (arg_output a)) (mkdir_parent w (arg_output a)))
      (then_do
        (do_call (Call_save_filled_form filled_image (path_str w (arg_output a)))
           (save_filled_form w filled_image (path_str w (arg_output a))))
        (do_print ''Filled form saved to: {}'' [VStr (path_str w (arg_output a))])))
      (\<lambda>e. then_do (do_print ''ERROR: Failed to save output: {}'' [VExn e]) (sys_exit 1)))"

definition summary :: "args \<Rightarrow> (string \<times> json) list \<Rightarrow> (string \<times> json) list option \<Rightarrow> ('f, unit) run" where
  "summary a final_data override_data =
     then_do (do_print ''\<newline>Auto Form Fill completed successfully!'' [])
    (then_do (do_print ''Summary:'' [])
    (then_do (do_print ''   Input image: {}'' [VStr (arg_image a)])
    (then_do (do_print ''   Template: {}'' [VStr (arg_template a)])
    (then_do (do_print ''   Fields processed: {}'' [VNat (length final_data)])
    (then_do (do_print ''   Output saved: {}'' [VStr (arg_output a)])
      (case override_data of
         None \<Rightarrow> do_return ()
       | Some d \<Rightarrow>
           if truthy (Some d) then do_print ''   Override values: {}'' [VNat (length d)]
           else do_return ()))))))"

text \<open>
  The values of \<^verbatim>\<open>extracted_data\<close> are strings; in the merged dict they stand beside the
  JSON values of the overrides, as the strings \<open>JStr\<close>.
\<close>

definition main :: "'f world \<Rightarrow> args \<Rightarrow> ('f, unit) run" where
  "main w a =
     then_do (do_print ''Starting Auto Form Fill workflow...'' [])
    (then_do (validate_input_files w a)
    (then_bind (load_template w a) (\<lambda>template.
     then_bind (extract_data w a template) (\<lambda>extracted_data.
     then_bind (load_overrides w a) (\<lambda>override_data.
     then_bind
       (do_return (merge_data (map (\<lambda>(k, v). (k, JStr v)) extracted_data) override_data))
       (\<lambda>final_data.
     then_do
       (do_print ''Data merged successfully. Final dataset has {} fields''
          [VNat (length final_data)])
    (then_bind (fill w a template final_data) (\<lambda>filled_image.
     then_do (save_output w a filled_image)
       (summary a final_data override_data)))))))))"

text \<open>
  The block under \<^verbatim>\<open>if __name__ == "__main__"\<close> and the exit status of the process:
  0 when \<^verbatim>\<open>main\<close> returns, the code of a \<^verbatim>\<open>SystemExit\<close> that leaves it.
\<close>

definition program :: "'f world \<Rightarrow> args \<Rightarrow> 'f event list \<times> int" where
  "program w a =
     (case main w a of
        (t, Inr u) \<Rightarrow> (t, 0)
      | (t, Inl KeyboardInterrupt) \<Rightarrow>
          (t @ [Print ''\<newline>Operation cancelled by user'' []], 1)
      | (t, Inl (SystemExit n)) \<Rightarrow> (t, n)
      | (t, Inl (Exn c m vs)) \<Rightarrow>
          (t @ [Print ''\<newline>FATAL ERROR: {}'' [VExn (Exn c m vs)]], 1))"

subsection \<open>The validator's rules as the specification words them\<close>

text \<open>
  The specification names five kinds of shape error and orders the rules: the
  \<^verbatim>\<open>fields\<close> key, its type, then every element in order, and for one element: it is a
  mapping, it has \<^verbatim>\<open>name\<close>, it has \<^verbatim>\<open>pixel_bbox\<close>. These definitions follow that
  wording, not the code: \<open>spec_field_violation\<close> is the first rule the element at index
  \<open>i\<close> breaks, \<open>spec_first_violation\<close> the first violation of a template given by its
  items, that is the head of the list of the violations of its elements in index order.
\<close>

datatype shape_error =
    MissingFieldsKey
  | FieldsNotList
  | FieldNotObject nat
  | FieldMissingName nat
  | FieldMissingBBox nat

definition spec_field_violation :: "nat \<Rightarrow> json \<Rightarrow> shape_error option" where
  "spec_field_violation i field =
     (case field of
        JDict d \<Rightarrow>
          if \<not> has_key d ''name'' then Some (FieldMissingName i)
          else if \<not> has_key d ''pixel_bbox'' then Some (FieldMissingBBox i)
          else None
      | _ \<Rightarrow> Some (FieldNotObject i))"

definition spec_first_violation :: "(string \<times> json) list \<Rightarrow> shape_error option" where
  "spec_first_violation d =
     (if \<not> has_key d ''fields'' then Some MissingFieldsKey
      else case map_of d ''fields'' of
        Some (JList fs) \<Rightarrow>
          (case List.map_filter (\<lambda>(i, field). spec_field_violation i field) (enumerate 0 fs) of
             [] \<Rightarrow> None
           | k # _ \<Rightarrow> Some k)
      | _ \<Rightarrow> Some FieldsNotList)"

text \<open>The exception by which \<^verbatim>\<open>validate_template\<close> signals each kind.\<close>

fun shape_exn :: "shape_error \<Rightarrow> exn" where
  "shape_exn MissingFieldsKey = Exn ValueError ''Template missing 'fields' key'' []"
| "shape_exn FieldsNotList = Exn ValueError ''Template 'fields' must be a list'' []"
| "shape_exn (FieldNotObject i) = Exn ValueError ''Field {} must be a dictionary'' [VNat i]"
| "shape_exn (FieldMissingName i) = Exn ValueError ''Field {} missing 'name' key'' [VNat i]"
| "shape_exn (FieldMissingBBox i) = Exn ValueError ''Field {} missing 'pixel_bbox' key'' [VNat i]"

subsection \<open>Concrete inputs\<close>

text \<open>
  The template of the specification's scenario A, the one of its scenario D, and a
  template whose second field has no \<^verbatim>\<open>name\<close>.
\<close>

definition template_A :: json where
  "template_A =
     JDict [(''fields'',
       JList [JDict [(''name'', JStr ''full_name''),
                     (''pixel_bbox'', JList [JInt 0, JInt 0, JInt 10, JInt 10])]])]"

definition template_D :: json where
  "template_D = JDict [(''fields'', JStr ''not-a-list'')]"

definition fields_B :: "json list" where
  "fields_B =
     [JDict [(''name'', JStr ''full_name''), (''pixel_bbox'', JList [])],
      JDict [(''pixel_bbox'', JList [])],
      JInt 3]"

text \<open>
  A world for the examples: every path exists, \<^verbatim>\<open>missing.json\<close> cannot be opened, the
  file \<^verbatim>\<open>bad.json\<close> holds text that is no JSON, every other file holds the template of
  scenario D. The matcher is a parameter.
\<close>

definition example_world :: "(string \<Rightarrow> exn + json) option \<Rightarrow> unit world" where
  "example_world matcher =
     \<lparr> path_exists = (\<lambda>p. True),
       open_file = (\<lambda>p.
         if p = ''missing.json'' then
           Inl (Exn FileNotFoundError ''[Errno 2] No such file or directory: {}'' [VStr p])
         else if p = ''bad.json'' then Inr ''{''
         else Inr ''D''),
       json_load = (\<lambda>text.
         if text = ''D'' then Inr template_D
         else Inl (Exn JSONDecodeError ''Expecting property name enclosed in double quotes'' [])),
       match_template = matcher,
       extract_data_from_image = (\<lambda>img template. Inr [(''full_name'', ''Jane Doe'')]),
       fill_form = (\<lambda>img template final_data. Inr ()),
       path_str = (\<lambda>p. p),
       mkdir_parent = (\<lambda>p. Inr ()),
       save_filled_form = (\<lambda>filled_image p. Inr ()) \<rparr>"

definition example_args :: args where
  "example_args =
     \<lparr> arg_image = ''form.png'', arg_template = ''template.json'', arg_output = ''out.pdf'',
       arg_data = None, arg_debug = True \<rparr>"

definition example_store :: "string store" where
  "example_store =
     \<lparr> cells = (\<lambda>a. if a = 0 then [(''full_name'', ''Jane Doe'')] else []), next_free = 1 \<rparr>"

text \<open>A matcher that fails on every image.\<close>

definition failing_matcher :: "string \<Rightarrow> exn + json" where
  "failing_matcher img = Inl (Exn (OtherException ''RuntimeError'') ''no template matches'' [])"

text \<open>A matcher that returns the template of scenario A for every image.\<close>

definition matcher_A :: "string \<Rightarrow> exn + json" where
  "matcher_A img = Inr template_A"

text \<open>
  The world of the examples with every file holding the template of scenario A.
\<close>

definition world_A :: "(string \<Rightarrow> exn + json) option \<Rightarrow> unit world" where
  "world_A matcher =
     (example_world matcher)
       \<lparr> open_file := (\<lambda>p. Inr ''A''), json_load := (\<lambda>text. Inr template_A) \<rparr>"

text \<open>
  A world where \<^verbatim>\<open>good.json\<close> is a regular file, so that nothing exists at
  \<^verbatim>\<open>good.json/x\<close> and \<^verbatim>\<open>open\<close> raises \<^verbatim>\<open>NotADirectoryError\<close> there, and where the other
  files hold the single byte \<^verbatim>\<open>0xE9\<close>, which is no UTF-8 text: reading it in
  \<^verbatim>\<open>json.load\<close> raises \<^verbatim>\<open>UnicodeDecodeError\<close>.
\<close>

definition unreadable_world :: "unit world" where
  "unreadable_world =
     (example_world None)
       \<lparr> path_exists := (\<lambda>p. p \<noteq> ''good.json/x''),
         open_file := (\<lambda>p.
           if p = ''good.json/x'' then
             Inl (Exn (OtherException ''NotADirectoryError'') ''[Errno 20] Not a directory: {}''
                    [VStr p])
           else Inr [CHR 0xE9]),
         json_load := (\<lambda>text.
           Inl (Exn (OtherException ''UnicodeDecodeError'')
                  ''{} codec can't decode byte 0xe9 in position 0: unexpected end of data''
                  [VStr ''utf-8''])) \<rparr>"

section \<open>Properties\<close>

subsection \<open>Data Merger\<close>

lemma map_of_dict_setitem: "map_of (dict_setitem k v d) = (map_of d)(k \<mapsto> v)"
  by (induction d) (auto simp: fun_eq_iff)

text \<open>An update reads the other dict from its first item to its last: the last one wins.\<close>

lemma map_of_dict_update_rev: "map_of (dict_update d other) = map_of d ++ map_of (rev other)"
  unfolding dict_update_def
proof (induction other arbitrary: d)
  case Nil
  show ?case by simp
next
  case (Cons x xs)
  obtain k v where x: "x = (k, v)" by (cases x)
  have "map_of (fold (\<lambda>(k, v). dict_setitem k v) xs (dict_setitem k v d))
          = map_of (dict_setitem k v d) ++ map_of (rev xs)"
    by (rule Cons.IH)
  then show ?case
    by (simp add: x map_of_dict_setitem map_add_def fun_eq_iff split: option.splits)
qed

lemma map_of_rev_distinct:
  assumes "distinct (map fst xs)"
  shows "map_of (rev xs) = map_of xs"
proof (rule map_of_inject_set[THEN iffD2])
  show "distinct (map fst (rev xs))" using assms by (simp add: rev_map[symmetric])
  show "distinct (map fst xs)" by (rule assms)
  show "set (rev xs) = set xs" by simp
qed

lemma map_of_dict_update:
  "distinct (map fst other) \<Longrightarrow> map_of (dict_update d other) = map_of d ++ map_of other"
  by (simp add: map_of_dict_update_rev map_of_rev_distinct)

lemma has_key_map_of: "has_key d k \<longleftrightarrow> map_of d k \<noteq> None"
  by (simp add: has_key_def map_of_eq_None_iff)

text \<open>
  C1. For dicts \<open>ex\<close> (extracted) and \<open>ov\<close> (override), the merged dict holds under each
  key \<open>k\<close>: the value of \<open>ov\<close> when \<open>k\<close> is a key of \<open>ov\<close>; else the value of \<open>ex\<close> when
  \<open>k\<close> is a key of \<open>ex\<close>; else nothing (\<open>map_of\<close> is the lookup, \<open>None\<close> an absent key).
  The keys of a dict are distinct.
\<close>

theorem merge_data_law:
  assumes "distinct (map fst ov)"
  shows "map_of (merge_data ex (Some ov)) k =
           (if has_key ov k then map_of ov k
            else if has_key ex k then map_of ex k
            else None)"
proof (cases "ov = []")
  case True
  then show ?thesis
    by (auto simp: merge_data_def has_key_map_of)
next
  case False
  then show ?thesis
    using assms
    by (auto simp: merge_data_def has_key_map_of map_of_dict_update map_add_def
        split: option.splits)
qed

theorem merge_data_law_witness:
  "distinct (map fst [(''full_name'', ''J. Doe''), (''city'', ''Oslo'')])
   \<and> map_of (merge_data [(''full_name'', ''Jane Doe''), (''dob'', ''1990'')]
        (Some [(''full_name'', ''J. Doe''), (''city'', ''Oslo'')])) ''full_name'' = Some ''J. Doe''
   \<and> map_of (merge_data [(''full_name'', ''Jane Doe''), (''dob'', ''1990'')]
        (Some [(''full_name'', ''J. Doe''), (''city'', ''Oslo'')])) ''dob'' = Some ''1990''
   \<and> map_of (merge_data [(''full_name'', ''Jane Doe''), (''dob'', ''1990'')]
        (Some [(''full_name'', ''J. Doe''), (''city'', ''Oslo'')])) ''zip'' = None"
  using
    merge_data_law [of "[(''full_name'', ''J. Doe''), (''city'', ''Oslo'')]"
      "[(''full_name'', ''Jane Doe''), (''dob'', ''1990'')]" "''full_name''"]
    merge_data_law [of "[(''full_name'', ''J. Doe''), (''city'', ''Oslo'')]"
      "[(''full_name'', ''Jane Doe''), (''dob'', ''1990'')]" "''dob''"]
    merge_data_law [of "[(''full_name'', ''J. Doe''), (''city'', ''Oslo'')]"
      "[(''full_name'', ''Jane Doe''), (''dob'', ''1990'')]" "''zip''"]
  by (simp add: has_key_def)

text \<open>
  C9. Merging the same overrides a second time changes nothing: the two dicts are equal
  as Python compares dicts, key by key. The override may be absent.
\<close>

theorem merge_data_idempotent:
  "map_of (merge_data (merge_data ex ov) ov) = map_of (merge_data ex ov)"
  by (cases ov)
    (auto simp: merge_data_def map_of_dict_update_rev map_add_def fun_eq_iff
      split: option.splits)

text \<open>
  C10. An empty override dict is false like \<^verbatim>\<open>None\<close>: the merge returns the items of the
  extracted dict, as it does without overrides.
\<close>

theorem merge_data_empty_override:
  "merge_data ex (Some []) = ex \<and> merge_data ex (Some []) = merge_data ex None"
  by (simp add: merge_data_def)

text \<open>
  The store model agrees with the model on values: the object returned holds the items
  that \<open>merge_data\<close> computes from the items of its arguments, and no object that
  existed before the call is changed.
\<close>

lemma merge_data_store_refines:
  assumes "e < next_free s" and "\<forall>a. ov = Some a \<longrightarrow> a < next_free s"
  shows "cells (snd (merge_data_store s e ov)) (fst (merge_data_store s e ov))
           = merge_data (cells s e) (map_option (cells s) ov)"
  using assms
  by (cases ov)
    (auto simp: merge_data_store_def dict_copy_def dict_update_in_place_def merge_data_def)

lemma merge_data_store_frame:
  "a < next_free s \<Longrightarrow> cells (snd (merge_data_store s e ov)) a = cells s a"
  by (cases ov) (auto simp: merge_data_store_def dict_copy_def dict_update_in_place_def)

text \<open>
  C7. Without overrides (\<^verbatim>\<open>None\<close>), the merge of an existing dict object \<open>e\<close> returns an
  object with the items of \<open>e\<close>; the object returned is not \<open>e\<close> but a new one; and \<open>e\<close>
  holds after the call what it held before.
\<close>

theorem merge_data_store_absent:
  assumes "e < next_free s"
  shows "cells (snd (merge_data_store s e None)) (fst (merge_data_store s e None)) = cells s e
       \<and> fst (merge_data_store s e None) \<noteq> e
       \<and> cells (snd (merge_data_store s e None)) e = cells s e
       \<and> merge_data (cells s e) None = cells s e"
  using assms
  by (simp add: merge_data_store_def dict_copy_def merge_data_def)

theorem merge_data_store_absent_witness:
  "(0::nat) < next_free example_store
   \<and> fst (merge_data_store example_store 0 None) = 1
   \<and> cells (snd (merge_data_store example_store 0 None)) 1 = [(''full_name'', ''Jane Doe'')]
   \<and> cells (snd (merge_data_store example_store 0 None)) 0 = [(''full_name'', ''Jane Doe'')]"
  using merge_data_store_absent [of 0 example_store]
  by (simp add: example_store_def merge_data_store_def dict_copy_def)

subsection \<open>Template Validator\<close>

text \<open>The five kinds are told apart by the exception raised.\<close>

lemma shape_exn_inj: "shape_exn k = shape_exn k' \<Longrightarrow> k = k'"
  by (cases k; cases k'; simp)

lemma validate_fields_refines:
  "validate_fields i fs =
     (case List.map_filter (\<lambda>(i, field). spec_field_violation i field) (enumerate i fs) of
        [] \<Rightarrow> Inr ()
      | k # _ \<Rightarrow> Inl (shape_exn k))"
proof (induction fs arbitrary: i)
  case Nil
  show ?case by (simp add: List.map_filter_simps)
next
  case (Cons f rest)
  show ?case
    by (cases f) (simp_all add: List.map_filter_simps spec_field_violation_def Cons.IH)
qed

lemma validate_template_refines:
  "validate_template (JDict d) =
     (case spec_first_violation d of None \<Rightarrow> Inr () | Some k \<Rightarrow> Inl (shape_exn k))"
proof (cases "map_of d ''fields''")
  case None
  then show ?thesis
    by (simp add: validate_template_def spec_first_violation_def has_key_map_of)
next
  case (Some v)
  then show ?thesis
    by (cases v)
      (simp_all add: validate_template_def spec_first_violation_def has_key_map_of
        validate_fields_refines split: list.splits)
qed

text \<open>
  The loop stops at the first index whose element breaks a rule, with the first rule
  broken there; \<open>n\<close> is the index of the head of the list.
\<close>

lemma validate_fields_first:
  "i < length fs \<Longrightarrow>
   (\<forall>j<i. spec_field_violation (n + j) (fs ! j) = None) \<Longrightarrow>
   spec_field_violation (n + i) (fs ! i) = Some k \<Longrightarrow>
   validate_fields n fs = Inl (shape_exn k)"
proof (induction fs arbitrary: i n)
  case Nil
  then show ?case by simp
next
  case (Cons f rest)
  show ?case
  proof (cases i)
    case 0
    with Cons.prems(3) show ?thesis
      by (cases f) (auto simp: spec_field_violation_def split: if_splits)
  next
    case (Suc i')
    have head: "spec_field_violation n f = None"
      using Cons.prems(2) Suc by (auto dest: spec[of _ 0])
    have "validate_fields (Suc n) rest = Inl (shape_exn k)"
    proof (rule Cons.IH[of i'])
      show "i' < length rest" using Cons.prems(1) Suc by simp
      show "\<forall>j<i'. spec_field_violation (Suc n + j) (rest ! j) = None"
        using Cons.prems(2) Suc by (auto dest: spec[of _ "Suc _"])
      show "spec_field_violation (Suc n + i') (rest ! i') = Some k"
        using Cons.prems(3) Suc by simp
    qed
    with head show ?thesis
      by (cases f) (auto simp: spec_field_violation_def split: if_splits)
  qed
qed

lemma validate_fields_ok:
  "\<forall>f \<in> set fs. \<exists>d. f = JDict d \<and> has_key d ''name'' \<and> has_key d ''pixel_bbox'' \<Longrightarrow>
   validate_fields n fs = Inr ()"
  by (induction fs arbitrary: n) auto

text \<open>What passes validation is a dict whose \<^verbatim>\<open>fields\<close> is a list.\<close>

lemma validate_template_Inr:
  "validate_template t = Inr u \<Longrightarrow>
   \<exists>d fs. t = JDict d \<and> map_of d ''fields'' = Some (JList fs)"
  by (cases t)
    (auto simp: validate_template_def has_key_map_of
      split: if_splits bool.splits option.splits json.splits sum.splits)

lemma validate_fields_Exn: "validate_fields n fs = Inl e \<Longrightarrow> is_Exception e"
  by (induction fs arbitrary: n) (auto split: json.splits if_splits)

lemma validate_template_Exn: "validate_template t = Inl e \<Longrightarrow> is_Exception e"
  by (cases t)
    (auto simp: validate_template_def dest: validate_fields_Exn
      split: if_splits bool.splits option.splits json.splits sum.splits)

text \<open>
  C5. On a template that is a dict, \<^verbatim>\<open>validate_template\<close> returns when the template
  breaks no rule, and otherwise raises the exception of the first violation in the
  specification's order of the rules, and of no other. In particular: when \<^verbatim>\<open>fields\<close> is a
  list, the elements before index \<open>i\<close> break no rule and the element at \<open>i\<close> is a dict
  without \<^verbatim>\<open>name\<close>, the exception is the one for a missing name at index \<open>i\<close>.
\<close>

theorem validate_template_first_violation:
  "validate_template (JDict d) =
     (case spec_first_violation d of None \<Rightarrow> Inr () | Some k \<Rightarrow> Inl (shape_exn k))
   \<and> (map_of d ''fields'' = Some (JList fs) \<and> i < length fs
        \<and> (\<forall>j<i. spec_field_violation j (fs ! j) = None)
        \<and> (\<exists>fd. fs ! i = JDict fd \<and> \<not> has_key fd ''name'')
      \<longrightarrow> validate_template (JDict d)
            = Inl (Exn ValueError ''Field {} missing 'name' key'' [VNat i]))"
proof (intro conjI impI)
  show "validate_template (JDict d) =
     (case spec_first_violation d of None \<Rightarrow> Inr () | Some k \<Rightarrow> Inl (shape_exn k))"
    by (rule validate_template_refines)
next
  assume h: "map_of d ''fields'' = Some (JList fs) \<and> i < length fs
        \<and> (\<forall>j<i. spec_field_violation j (fs ! j) = None)
        \<and> (\<exists>fd. fs ! i = JDict fd \<and> \<not> has_key fd ''name'')"
  then have "spec_field_violation (0 + i) (fs ! i) = Some (FieldMissingName i)"
    by (auto simp: spec_field_violation_def)
  moreover have "\<forall>j<i. spec_field_violation (0 + j) (fs ! j) = None"
    using h by simp
  ultimately have "validate_fields 0 fs = Inl (shape_exn (FieldMissingName i))"
    using h validate_fields_first[of i fs 0] by blast
  then show "validate_template (JDict d)
               = Inl (Exn ValueError ''Field {} missing 'name' key'' [VNat i])"
    using h by (simp add: validate_template_def has_key_map_of)
qed

theorem validate_template_first_violation_witness:
  "map_of [(''fields'', JList fields_B)] ''fields'' = Some (JList fields_B)
   \<and> 1 < length fields_B
   \<and> spec_field_violation 0 (fields_B ! 0) = None
   \<and> fields_B ! 1 = JDict [(''pixel_bbox'', JList [])]
   \<and> \<not> has_key [(''pixel_bbox'', JList [])] ''name''
   \<and> spec_first_violation [(''fields'', JList fields_B)] = Some (FieldMissingName 1)
   \<and> validate_template (JDict [(''fields'', JList fields_B)])
       = Inl (Exn ValueError ''Field {} missing 'name' key'' [VNat 1])"
  using validate_template_first_violation [of "[(''fields'', JList fields_B)]" fields_B 1]
  by (simp add: fields_B_def spec_field_violation_def spec_first_violation_def has_key_def
      List.map_filter_simps enumerate_eq_zip upt_rec)

text \<open>
  C6. A template that is a dict whose \<^verbatim>\<open>fields\<close> is a list of dicts, each with the keys
  \<^verbatim>\<open>name\<close> and \<^verbatim>\<open>pixel_bbox\<close>, passes \<^verbatim>\<open>validate_template\<close>: no exception is raised.
\<close>

theorem validate_template_accepts:
  assumes "map_of d ''fields'' = Some (JList fs)"
    and "\<forall>f \<in> set fs. \<exists>fd. f = JDict fd \<and> has_key fd ''name'' \<and> has_key fd ''pixel_bbox''"
  shows "validate_template (JDict d) = Inr ()"
  using assms by (simp add: validate_template_def has_key_map_of validate_fields_ok)

theorem validate_template_accepts_witness:
  "validate_template template_A = Inr ()"
  unfolding template_A_def
  using validate_template_accepts
    [of "[(''fields'',
       JList [JDict [(''name'', JStr ''full_name''),
                     (''pixel_bbox'', JList [JInt 0, JInt 0, JInt 10, JInt 10])]])]"
       "[JDict [(''name'', JStr ''full_name''),
                     (''pixel_bbox'', JList [JInt 0, JInt 0, JInt 10, JInt 10])]]"]
  by (simp add: has_key_def)

subsection \<open>Config Loader\<close>

lemmas run_defs = do_return_def do_raise_def do_lift_def do_print_def do_call_def sys_exit_def
  then_bind_def then_do_def try_except_def print_each_def exists_call_def

lemma load_json_file_events:
  "fst (load_json_file w p) =
     (case open_file w p of
        Inl e \<Rightarrow> [Call_open p]
      | Inr text \<Rightarrow> [Call_open p, Call_json_load p])"
  by (auto simp: load_json_file_def run_defs split: sum.splits)

text \<open>
  C8, as amended. When \<^verbatim>\<open>open\<close> raises \<^verbatim>\<open>FileNotFoundError\<close>, \<^verbatim>\<open>load_json_file\<close> raises
  a \<^verbatim>\<open>FileNotFoundError\<close> that names the path; when \<^verbatim>\<open>json.load\<close> raises
  \<^verbatim>\<open>JSONDecodeError\<close>, it raises a \<^verbatim>\<open>ValueError\<close> whose message holds the path and the
  decoder's error. The two are of different classes: neither is caught by an \<^verbatim>\<open>except\<close>
  clause for the other. An exception of any other class, from \<^verbatim>\<open>open\<close> or from
  \<^verbatim>\<open>json.load\<close>, reaches the caller as it is.
\<close>

theorem load_json_file_errors:
  "(open_file w p = Inl e \<and> is_class FileNotFoundError e \<longrightarrow>
      snd (load_json_file w p) = Inl (Exn FileNotFoundError ''JSON file not found: {}'' [VStr p]))
   \<and> (open_file w p = Inr text \<and> json_load w text = Inl e \<and> is_class JSONDecodeError e \<longrightarrow>
      snd (load_json_file w p) = Inl (Exn ValueError ''Invalid JSON in {}: {}'' [VStr p, VExn e]))
   \<and> \<not> is_class ValueError (Exn FileNotFoundError ''JSON file not found: {}'' [VStr p])
   \<and> \<not> is_class FileNotFoundError (Exn ValueError ''Invalid JSON in {}: {}'' [VStr p, VExn e])
   \<and> (open_file w p = Inl e \<and> \<not> is_class FileNotFoundError e \<and> \<not> is_class JSONDecodeError e \<longrightarrow>
      snd (load_json_file w p) = Inl e)
   \<and> (open_file w p = Inr text \<and> json_load w text = Inl e
        \<and> \<not> is_class FileNotFoundError e \<and> \<not> is_class JSONDecodeError e \<longrightarrow>
      snd (load_json_file w p) = Inl e)"
  by (cases e) (auto simp: load_json_file_def run_defs)

theorem load_json_file_errors_witness:
  "open_file (example_world None) ''missing.json''
     = Inl (Exn FileNotFoundError ''[Errno 2] No such file or directory: {}''
         [VStr ''missing.json''])
   \<and> snd (load_json_file (example_world None) ''missing.json'')
     = Inl (Exn FileNotFoundError ''JSON file not found: {}'' [VStr ''missing.json''])
   \<and> open_file (example_world None) ''bad.json'' = Inr ''{''
   \<and> json_load (example_world None) ''{''
     = Inl (Exn JSONDecodeError ''Expecting property name enclosed in double quotes'' [])
   \<and> snd (load_json_file (example_world None) ''bad.json'')
     = Inl (Exn ValueError ''Invalid JSON in {}: {}''
         [VStr ''bad.json'',
          VExn (Exn JSONDecodeError ''Expecting property name enclosed in double quotes'' [])])
   \<and> snd (load_json_file unreadable_world ''good.json/x'')
       = Inl (Exn (OtherException ''NotADirectoryError'') ''[Errno 20] Not a directory: {}''
                [VStr ''good.json/x''])
   \<and> snd (load_json_file unreadable_world ''latin1.json'')
       = Inl (Exn (OtherException ''UnicodeDecodeError'')
                ''{} codec can't decode byte 0xe9 in position 0: unexpected end of data''
                [VStr ''utf-8''])"
  using
    load_json_file_errors [of "example_world None" "''missing.json''"
      "Exn FileNotFoundError ''[Errno 2] No such file or directory: {}'' [VStr ''missing.json'']"]
    load_json_file_errors [of "example_world None" "''bad.json''"
      "Exn JSONDecodeError ''Expecting property name enclosed in double quotes'' []" "''{''"]
    load_json_file_errors [of unreadable_world "''good.json/x''"
      "Exn (OtherException ''NotADirectoryError'') ''[Errno 20] Not a directory: {}''
                [VStr ''good.json/x'']"]
    load_json_file_errors [of unreadable_world "''latin1.json''"
      "Exn (OtherException ''UnicodeDecodeError'')
                ''{} codec can't decode byte 0xe9 in position 0: unexpected end of data''
                [VStr ''utf-8'']" "[CHR 0xE9]"]
  by (simp add: example_world_def unreadable_world_def)

text \<open>
  C8 as stated fails. Nothing exists at \<^verbatim>\<open>good.json/x\<close>, and the loader signals
  \<^verbatim>\<open>NotADirectoryError\<close>, which is no \<^verbatim>\<open>FileNotFoundError\<close>; the content of
  \<^verbatim>\<open>latin1.json\<close> is no valid text, and the loader signals the \<^verbatim>\<open>UnicodeDecodeError\<close> of
  the read as it is, not a \<^verbatim>\<open>ValueError\<close> made from the path and the error.
\<close>

theorem load_json_file_counterexample:
  "\<not> path_exists unreadable_world ''good.json/x''
   \<and> snd (load_json_file unreadable_world ''good.json/x'')
       = Inl (Exn (OtherException ''NotADirectoryError'') ''[Errno 20] Not a directory: {}''
                [VStr ''good.json/x''])
   \<and> \<not> is_class FileNotFoundError
         (Exn (OtherException ''NotADirectoryError'') ''[Errno 20] Not a directory: {}''
            [VStr ''good.json/x''])
   \<and> open_file unreadable_world ''latin1.json'' = Inr [CHR 0xE9]
   \<and> snd (load_json_file unreadable_world ''latin1.json'')
       = json_load unreadable_world [CHR 0xE9]
   \<and> snd (load_json_file unreadable_world ''latin1.json'')
       = Inl (Exn (OtherException ''UnicodeDecodeError'')
                ''{} codec can't decode byte 0xe9 in position 0: unexpected end of data''
                [VStr ''utf-8''])"
  by (simp add: unreadable_world_def example_world_def load_json_file_def run_defs)

subsection \<open>Template Resolver\<close>

text \<open>
  C2. When the matcher is callable and returns a template \<open>t\<close> for the image, step 2
  returns \<open>t\<close> and nothing else: \<open>t\<close> itself when it passes validation, and otherwise the
  run exits. The Config Loader is not called in step 2: no file is opened.
\<close>

theorem load_template_matched:
  assumes "match_template w = Some matcher" and "matcher (arg_image a) = Inr t"
  shows "snd (load_template w a)
           = (if validate_template t = Inr () then Inr t else Inl (SystemExit 1))
       \<and> loader_calls (fst (load_template w a)) = 0"
proof (cases "validate_template t")
  case (Inl e)
  then have "is_Exception e" by (rule validate_template_Exn)
  with Inl assms show ?thesis
    by (simp add: load_template_def run_defs loader_calls_def)
next
  case (Inr u)
  then obtain d fs where "t = JDict d" "map_of d ''fields'' = Some (JList fs)"
    using validate_template_Inr by blast
  with Inr assms show ?thesis
    by (simp add: load_template_def run_defs loader_calls_def)
qed

theorem load_template_matched_witness:
  "match_template (example_world (Some matcher_A)) = Some matcher_A
   \<and> matcher_A (arg_image example_args) = Inr template_A
   \<and> load_template (example_world (Some matcher_A)) example_args
     = ([Print ''Step 2: Loading template...'' [],
         Print ''Attempting automatic template matching...'' [],
         Call_match_template ''form.png'',
         Print ''Template matched automatically'' [],
         Print ''Template loaded successfully with {} fields'' [VNat 1]],
        Inr template_A)
   \<and> loader_calls (fst (load_template (example_world (Some matcher_A)) example_args)) = 0"
  using load_template_matched [of "example_world (Some matcher_A)" matcher_A example_args
      template_A]
  by (simp add: example_world_def example_args_def load_template_def run_defs template_A_def
      matcher_A_def validate_template_def has_key_def)

text \<open>When step 2 ends the run, \<^verbatim>\<open>main\<close> ends there with what step 2 raised.\<close>

lemma main_stops_at_template:
  assumes "snd (validate_input_files w a) = Inr ()" and "load_template w a = (ts, Inl x)"
  shows "main w a =
           (Print ''Starting Auto Form Fill workflow...'' [] # fst (validate_input_files w a) @ ts,
            Inl x)"
proof -
  obtain tv where "validate_input_files w a = (tv, Inr ())"
    using assms(1) by (cases "validate_input_files w a") auto
  then show ?thesis
    using assms(2) by (simp add: main_def then_do_def then_bind_def do_print_def)
qed

text \<open>
  C3. When the matcher is callable and raises an exception \<open>e\<close> (of a subclass of
  \<^verbatim>\<open>Exception\<close>), step 2 catches it, prints the warning and opens the file at the explicit
  template path. When that file loads and the template loaded passes validation, step 2
  returns that template, after one match and one load. When it fails validation with
  \<open>e'\<close>, step 2 makes no further attempt: it reports \<open>e'\<close>, not \<open>e\<close>, as the failure to
  load the template and exits with code 1, which is then the exit status of the run.
  When the file does not load, step 2 reports the loader's exception in the same way and
  exits with code 1.
\<close>

theorem load_template_fallback:
  assumes "match_template w = Some matcher" and "matcher (arg_image a) = Inl e"
    and "is_Exception e"
  shows "take 6 (fst (load_template w a)) =
           [Print ''Step 2: Loading template...'' [],
            Print ''Attempting automatic template matching...'' [],
            Call_match_template (arg_image a),
            Print ''Automatic matching failed: {}'' [VExn e],
            Print ''Loading template from specified path...'' [],
            Call_open (arg_template a)]
       \<and> (\<forall>t. snd (load_json_file w (arg_template a)) = Inr t
                \<and> validate_template t = Inr () \<longrightarrow>
            snd (load_template w a) = Inr t
            \<and> butlast (fst (load_template w a)) =
                [Print ''Step 2: Loading template...'' [],
                 Print ''Attempting automatic template matching...'' [],
                 Call_match_template (arg_image a),
                 Print ''Automatic matching failed: {}'' [VExn e],
                 Print ''Loading template from specified path...'' [],
                 Call_open (arg_template a),
                 Call_json_load (arg_template a)]
            \<and> (\<exists>n. last (fst (load_template w a))
                      = Print ''Template loaded successfully with {} fields'' [VNat n]))
       \<and> (\<forall>t e'. snd (load_json_file w (arg_template a)) = Inr t
                  \<and> validate_template t = Inl e' \<longrightarrow>
            load_template w a =
              ([Print ''Step 2: Loading template...'' [],
                Print ''Attempting automatic template matching...'' [],
                Call_match_template (arg_image a),
                Print ''Automatic matching failed: {}'' [VExn e],
                Print ''Loading template from specified path...'' [],
                Call_open (arg_template a),
                Call_json_load (arg_template a),
                Print ''ERROR: Failed to load template: {}'' [VExn e']],
               Inl (SystemExit 1))
            \<and> (snd (validate_input_files w a) = Inr () \<longrightarrow>
                 snd (program w a) = 1
                 \<and> last (fst (program w a))
                     = Print ''ERROR: Failed to load template: {}'' [VExn e']))
       \<and> (\<forall>e'. snd (load_json_file w (arg_template a)) = Inl e' \<and> is_Exception e' \<longrightarrow>
            load_template w a =
              ([Print ''Step 2: Loading template...'' [],
                Print ''Attempting automatic template matching...'' [],
                Call_match_template (arg_image a),
                Print ''Automatic matching failed: {}'' [VExn e],
                Print ''Loading template from specified path...'' []]
               @ fst (load_json_file w (arg_template a))
               @ [Print ''ERROR: Failed to load template: {}'' [VExn e']],
               Inl (SystemExit 1)))"
proof (intro conjI allI impI)
  obtain tj rj where lj: "load_json_file w (arg_template a) = (tj, rj)"
    by (cases "load_json_file w (arg_template a)")
  have tj: "tj = (case open_file w (arg_template a) of
                     Inl e \<Rightarrow> [Call_open (arg_template a)]
                   | Inr text \<Rightarrow> [Call_open (arg_template a), Call_json_load (arg_template a)])"
    using load_json_file_events[of w "arg_template a"] lj by simp
  show "take 6 (fst (load_template w a)) =
           [Print ''Step 2: Loading template...'' [],
            Print ''Attempting automatic template matching...'' [],
            Call_match_template (arg_image a),
            Print ''Automatic matching failed: {}'' [VExn e],
            Print ''Loading template from specified path...'' [],
            Call_open (arg_template a)]"
    using assms lj tj
    by (auto simp: load_template_def run_defs split: sum.splits prod.splits)
next
  fix t
  assume h: "snd (load_json_file w (arg_template a)) = Inr t \<and> validate_template t = Inr ()"
  have ev: "fst (load_json_file w (arg_template a))
              = [Call_open (arg_template a), Call_json_load (arg_template a)]"
    using h by (auto simp: load_json_file_def run_defs split: sum.splits if_splits)
  have lj: "load_json_file w (arg_template a)
              = ([Call_open (arg_template a), Call_json_load (arg_template a)], Inr t)"
    using h ev by (cases "load_json_file w (arg_template a)") simp
  obtain d fs where t: "t = JDict d" "map_of d ''fields'' = Some (JList fs)"
    using h validate_template_Inr by blast
  have lt: "load_template w a =
              ([Print ''Step 2: Loading template...'' [],
                Print ''Attempting automatic template matching...'' [],
                Call_match_template (arg_image a),
                Print ''Automatic matching failed: {}'' [VExn e],
                Print ''Loading template from specified path...'' [],
                Call_open (arg_template a),
                Call_json_load (arg_template a),
                Print ''Template loaded successfully with {} fields'' [VNat (length fs)]],
               Inr t)"
    using assms h lj t by (simp add: load_template_def run_defs)
  show "snd (load_template w a) = Inr t" by (simp add: lt)
  show "butlast (fst (load_template w a)) =
                [Print ''Step 2: Loading template...'' [],
                 Print ''Attempting automatic template matching...'' [],
                 Call_match_template (arg_image a),
                 Print ''Automatic matching failed: {}'' [VExn e],
                 Print ''Loading template from specified path...'' [],
                 Call_open (arg_template a),
                 Call_json_load (arg_template a)]"
    by (simp add: lt)
  show "\<exists>n. last (fst (load_template w a))
              = Print ''Template loaded successfully with {} fields'' [VNat n]"
    by (simp add: lt)
next
  fix t e'
  assume h: "snd (load_json_file w (arg_template a)) = Inr t \<and> validate_template t = Inl e'"
  have ev: "fst (load_json_file w (arg_template a))
              = [Call_open (arg_template a), Call_json_load (arg_template a)]"
    using h by (auto simp: load_json_file_def run_defs split: sum.splits if_splits)
  have lj: "load_json_file w (arg_template a)
              = ([Call_open (arg_template a), Call_json_load (arg_template a)], Inr t)"
    using h ev by (cases "load_json_file w (arg_template a)") simp
  have exn: "is_Exception e'" using h validate_template_Exn by blast
  show lt: "load_template w a =
              ([Print ''Step 2: Loading template...'' [],
                Print ''Attempting automatic template matching...'' [],
                Call_match_template (arg_image a),
                Print ''Automatic matching failed: {}'' [VExn e],
                Print ''Loading template from specified path...'' [],
                Call_open (arg_template a),
                Call_json_load (arg_template a),
                Print ''ERROR: Failed to load template: {}'' [VExn e']],
               Inl (SystemExit 1))"
    using assms h lj exn by (simp add: load_template_def run_defs)
  assume v: "snd (validate_input_files w a) = Inr ()"
  show "snd (program w a) = 1"
    by (simp add: program_def main_stops_at_template[OF v lt])
  show "last (fst (program w a)) = Print ''ERROR: Failed to load template: {}'' [VExn e']"
    by (simp add: program_def main_stops_at_template[OF v lt])
next
  fix e'
  assume h: "snd (load_json_file w (arg_template a)) = Inl e' \<and> is_Exception e'"
  obtain tj where lj: "load_json_file w (arg_template a) = (tj, Inl e')"
    using h by (cases "load_json_file w (arg_template a)") simp
  show "load_template w a =
              ([Print ''Step 2: Loading template...'' [],
                Print ''Attempting automatic template matching...'' [],
                Call_match_template (arg_image a),
                Print ''Automatic matching failed: {}'' [VExn e],
                Print ''Loading template from specified path...'' []]
               @ fst (load_json_file w (arg_template a))
               @ [Print ''ERROR: Failed to load template: {}'' [VExn e']],
               Inl (SystemExit 1))"
    using assms h lj by (simp add: load_template_def run_defs)
qed

theorem load_template_fallback_witness:
  "match_template (example_world (Some failing_matcher)) = Some failing_matcher
   \<and> failing_matcher (arg_image example_args)
       = Inl (Exn (OtherException ''RuntimeError'') ''no template matches'' [])
   \<and> is_Exception (Exn (OtherException ''RuntimeError'') ''no template matches'' [])
   \<and> snd (load_json_file (example_world (Some failing_matcher)) (arg_template example_args))
       = Inr template_D
   \<and> validate_template template_D = Inl (Exn ValueError ''Template 'fields' must be a list'' [])
   \<and> snd (validate_input_files (example_world (Some failing_matcher)) example_args) = Inr ()
   \<and> snd (load_template (example_world (Some failing_matcher)) example_args) = Inl (SystemExit 1)
   \<and> snd (program (example_world (Some failing_matcher)) example_args) = 1
   \<and> last (fst (program (example_world (Some failing_matcher)) example_args))
       = Print ''ERROR: Failed to load template: {}''
           [VExn (Exn ValueError ''Template 'fields' must be a list'' [])]
   \<and> match_template (world_A (Some failing_matcher)) = Some failing_matcher
   \<and> snd (load_json_file (world_A (Some failing_matcher)) (arg_template example_args))
       = Inr template_A
   \<and> validate_template template_A = Inr ()
   \<and> snd (load_template (world_A (Some failing_matcher)) example_args) = Inr template_A
   \<and> snd (load_json_file (example_world (Some failing_matcher)) ''missing.json'')
       = Inl (Exn FileNotFoundError ''JSON file not found: {}'' [VStr ''missing.json''])
   \<and> snd (load_template (example_world (Some failing_matcher))
            (example_args\<lparr>arg_template := ''missing.json''\<rparr>)) = Inl (SystemExit 1)"
proof -
  have m: "match_template (example_world (Some failing_matcher)) = Some failing_matcher"
    by (simp add: example_world_def)
  have mA: "match_template (world_A (Some failing_matcher)) = Some failing_matcher"
    by (simp add: example_world_def world_A_def)
  have r: "failing_matcher (arg_image example_args)
             = Inl (Exn (OtherException ''RuntimeError'') ''no template matches'' [])"
    by (simp add: failing_matcher_def)
  have r': "failing_matcher (arg_image (example_args\<lparr>arg_template := ''missing.json''\<rparr>))
             = Inl (Exn (OtherException ''RuntimeError'') ''no template matches'' [])"
    by (simp add: failing_matcher_def)
  have x: "is_Exception (Exn (OtherException ''RuntimeError'') ''no template matches'' [])"
    by simp
  have l: "snd (load_json_file (example_world (Some failing_matcher)) (arg_template example_args))
             = Inr template_D"
    by (simp add: load_json_file_def run_defs example_world_def example_args_def)
  have lA: "snd (load_json_file (world_A (Some failing_matcher)) (arg_template example_args))
             = Inr template_A"
    by (simp add: load_json_file_def run_defs example_world_def world_A_def example_args_def)
  have lM: "snd (load_json_file (example_world (Some failing_matcher)) ''missing.json'')
       = Inl (Exn FileNotFoundError ''JSON file not found: {}'' [VStr ''missing.json''])"
    by (simp add: load_json_file_def run_defs example_world_def)
  have v: "validate_template template_D
             = Inl (Exn ValueError ''Template 'fields' must be a list'' [])"
    by (simp add: validate_template_def template_D_def has_key_def)
  have vA: "validate_template template_A = Inr ()"
    by (simp add: validate_template_def template_A_def has_key_def)
  have i: "snd (validate_input_files (example_world (Some failing_matcher)) example_args) = Inr ()"
    by (simp add: validate_input_files_def run_defs example_world_def example_args_def
        data_path_def)
  show ?thesis
    using load_template_fallback [OF m r x] load_template_fallback [OF mA r x]
      load_template_fallback [OF m r' x]
      l lA lM v vA i m mA r by simp
qed

subsection \<open>The debug flag\<close>

lemma data_path_debug: "data_path (a\<lparr>arg_debug := b\<rparr>) = data_path a"
  by (simp add: data_path_def)

lemma validate_input_files_debug:
  "validate_input_files w (a\<lparr>arg_debug := b\<rparr>) = validate_input_files w a"
  by (simp add: validate_input_files_def data_path_debug cong: if_cong option.case_cong)

lemma load_template_debug: "load_template w (a\<lparr>arg_debug := b\<rparr>) = load_template w a"
  by (simp add: load_template_def cong: if_cong option.case_cong)

lemma extract_data_debug: "extract_data w (a\<lparr>arg_debug := b\<rparr>) = extract_data w a"
  by (simp add: extract_data_def fun_eq_iff)

lemma load_overrides_debug: "load_overrides w (a\<lparr>arg_debug := b\<rparr>) = load_overrides w a"
  by (simp add: load_overrides_def data_path_debug cong: if_cong option.case_cong)

lemma fill_debug: "fill w (a\<lparr>arg_debug := b\<rparr>) = fill w a"
  by (simp add: fill_def fun_eq_iff)

lemma save_output_debug: "save_output w (a\<lparr>arg_debug := b\<rparr>) = save_output w a"
  by (simp add: save_output_def fun_eq_iff)

lemma summary_debug: "summary (a\<lparr>arg_debug := b\<rparr>) = summary a"
  by (simp add: summary_def fun_eq_iff)

lemma main_debug: "main w (a\<lparr>arg_debug := b\<rparr>) = main w a"
  by (simp add: main_def validate_input_files_debug load_template_debug extract_data_debug
      load_overrides_debug fill_debug save_output_debug summary_debug)

text \<open>
  A run with \<^verbatim>\<open>--debug\<close> (\<open>example_args\<close>), the matcher returning the template of
  scenario A: the calls that leave the module, in order. The extractor receives the
  image path and the template.
\<close>

lemma run_with_debug_calls:
  "filter (\<lambda>ev. case ev of Print s vs \<Rightarrow> False | _ \<Rightarrow> True)
     (fst (program (example_world (Some matcher_A)) example_args))
   = [Call_exists ''form.png'', Call_exists ''template.json'',
      Call_match_template ''form.png'',
      Call_extract_data_from_image ''form.png'' template_A,
      Call_fill_form ''form.png'' template_A [(''full_name'', JStr ''Jane Doe'')],
      Call_mkdir_parent ''out.pdf'',
      Call_save_filled_form () ''out.pdf'']
   \<and> snd (program (example_world (Some matcher_A)) example_args) = 0"
  by (simp add: program_def main_def validate_input_files_def load_template_def extract_data_def
      load_overrides_def fill_def save_output_def summary_def data_path_def run_defs
      example_world_def example_args_def matcher_A_def template_A_def validate_template_def
      has_key_def merge_data_def)

text \<open>
  C4. \<^verbatim>\<open>main\<close> never reads \<^verbatim>\<open>args.debug\<close>: a run with \<^verbatim>\<open>--debug\<close> prints and calls, event
  for event and argument for argument, what the run without it does, and ends with the
  same exit status. So the flag has no effect on the orchestration, and the extraction
  collaborator, called with the image and the template only, does not receive it.
\<close>

theorem program_ignores_debug: "program w (a\<lparr>arg_debug := b\<rparr>) = program w a"
  by (simp add: program_def main_debug)

end
